theory Spec2Isabelle
  imports Main "HOL-Library.Word" "HOL-Library.Signed_Division" "HOL-Library.Sublist"
begin

unbundle bit_operations_syntax

section \<open>The Riffle client (client/client.go)\<close>

text \<open>
  A shallow embedding of the per-round operations of \<^verbatim>\<open>client.go\<close>: RequestBlock,
  DownloadReqHash, Upload, UploadBlock, Download, DownloadBlock and DownloadSlot.

  \<^item> Byte slices are lists of 8-bit words. Go's \<^verbatim>\<open>int\<close> counters are modelled as
    unbounded integers (the 64-bit wrap-around is out of reach of the round counters).
  \<^item> The connection \<^verbatim>\<open>rpcServers[myServer]\<close> is the field \<open>wire\<close>: the list of calls
    sent to the home server so far. The home server is a function from that history and
    the current call to a reply; every theorem holds for all such functions.
  \<^item> \<^verbatim>\<open>log.Fatal\<close>, a run-time panic and a channel operation that cannot proceed end an
    operation early; the outcome keeps the client state reached at that point.
  \<^item> The four mutexes are not modelled: every operation is run on its own, start to end.
  \<^item> The package \<^verbatim>\<open>afs/lib\<close> is not part of the sources. Its constants and its
    cryptographic functions are parameters (the record \<open>lib\<close>); its byte helpers
    \<^verbatim>\<open>Xor\<close>, \<^verbatim>\<open>Xors\<close> and \<^verbatim>\<open>SetBit\<close> are modelled from the specification.
\<close>

subsection \<open>Bytes, outcomes\<close>

type_synonym byte = "8 word"
type_synonym bytes = "byte list"

datatype halt = Fatal | Panic | Blocked

datatype ('a, 's) outcome = Halt halt 's | Done 'a 's

fun state_of :: "('a, 's) outcome \<Rightarrow> 's" where
  "state_of (Halt h s) = s"
| "state_of (Done a s) = s"

definition zeros :: "nat \<Rightarrow> bytes" where
  \<comment> \<open>\<^verbatim>\<open>make([]byte, n)\<close>\<close>
  "zeros n = replicate n 0"

subsection \<open>Parameters: the constants and the cryptographic functions of afs/lib\<close>

record ('pt, 'sc, 'rnd) lib =
  MaxRounds :: nat
  BlockSize :: nat
  SecretSize :: nat
  SuiteHash :: "bytes \<Rightarrow> bytes"
  Base :: 'pt
  Pick :: "'rnd \<Rightarrow> 'sc \<times> 'rnd"
  Mul :: "'pt \<Rightarrow> 'sc \<Rightarrow> 'pt"
  Cipher :: "bytes \<Rightarrow> nat \<Rightarrow> byte"
  Encrypt :: "bytes \<Rightarrow> 'pt list \<Rightarrow> 'pt list \<times> 'pt list"
  EncryptPoint :: "'pt \<Rightarrow> 'pt \<Rightarrow> 'pt \<times> 'pt"
  MarshalPoint :: "'pt \<Rightarrow> bytes"
  CounterAES :: "bytes \<Rightarrow> bytes \<Rightarrow> bytes"

text \<open>
  \<open>SuiteHash\<close> is \<^verbatim>\<open>Suite.Hash()\<close> written to and summed; \<open>Base\<close> is
  \<^verbatim>\<open>g.Point().Base()\<close>; \<open>Pick\<close> draws a scalar from the client's random stream and
  returns the stream's next state; \<open>Mul p s\<close> is \<^verbatim>\<open>g.Point().Mul(p, s)\<close>;
  \<open>Cipher key k\<close> is byte \<open>k\<close> of the keystream of \<^verbatim>\<open>Suite.Cipher(key)\<close>.
\<close>

definition Read :: "('pt, 'sc, 'rnd) lib \<Rightarrow> bytes \<Rightarrow> nat \<Rightarrow> bytes" where
  \<comment> \<open>\<^verbatim>\<open>rand := Suite.Cipher(key); rand.Read(buf)\<close> with \<open>n = len(buf)\<close>\<close>
  "Read L key n = map (Cipher L key) [0..<n]"

subsection \<open>Byte helpers of afs/lib\<close>

definition xor_bytes :: "bytes \<Rightarrow> bytes \<Rightarrow> bytes" where
  "xor_bytes a b = map2 (XOR) a b"

definition Xor :: "bytes \<Rightarrow> bytes \<Rightarrow> halt + bytes" where
  \<comment> \<open>Modelled from the spec: \<^verbatim>\<open>Xor\<close> of afs/lib is missing. Section 4.A: the in-place
     XOR of two buffers of equal length, a length mismatch being fatal. \<open>Xor r w\<close> is the
     new content of the buffer written. client.go reads the result from the second
     argument (\<^verbatim>\<open>Xor(finalMask, mask)\<close> then sends \<^verbatim>\<open>mask\<close>; \<^verbatim>\<open>Xor(secretsXor, response)\<close>
     then returns \<^verbatim>\<open>response\<close>), as section 4.F states the two results; so the second
     argument is the buffer written and the first is only read.\<close>
  "Xor r w = (if length r = length w then Inr (xor_bytes r w) else Inl Fatal)"

fun Xors_from :: "bytes \<Rightarrow> bytes list \<Rightarrow> halt + bytes" where
  "Xors_from x [] = Inr x"
| "Xors_from x (b # bs) =
     (case Xor b x of Inl e \<Rightarrow> Inl e | Inr x' \<Rightarrow> Xors_from x' bs)"

definition Xors :: "bytes list \<Rightarrow> halt + bytes" where
  \<comment> \<open>Modelled from the spec: \<^verbatim>\<open>Xors\<close> of afs/lib is missing. Section 4.A: the XOR of
     all inputs, in a fresh buffer; a length mismatch is fatal. The spec does not say
     what the XOR of no input is; no length is given then, and the model halts.\<close>
  "Xors bss = (case bss of [] \<Rightarrow> Inl Panic | b # bs \<Rightarrow> Xors_from b bs)"

definition SetBit :: "int \<Rightarrow> bool \<Rightarrow> bytes \<Rightarrow> halt + bytes" where
  \<comment> \<open>Modelled from the spec: \<^verbatim>\<open>SetBit\<close> of afs/lib is missing. Section 4.A: sets bit
     \<open>i\<close> of the buffer to \<open>v\<close>, the byte index being \<open>i / 8\<close> and the bits of a byte
     counted from the most significant. An index outside the buffer is an out-of-range
     access.\<close>
  "SetBit i v buf =
     (if 0 \<le> i \<and> nat i div 8 < length buf
      then let k = nat i div 8; m = (push_bit (7 - nat i mod 8) 1 :: byte)
           in Inr (buf[k := (if v then buf ! k OR m else buf ! k AND NOT m)])
      else Inl Panic)"

definition test_bit :: "bytes \<Rightarrow> nat \<Rightarrow> bool" where
  \<comment> \<open>Bit \<open>i\<close> of a buffer, in the numbering of \<open>SetBit\<close>.\<close>
  "test_bit buf i = bit (buf ! (i div 8)) (7 - i mod 8)"

subsection \<open>Messages and the home server\<close>

text \<open>
  One constructor per call the operations place; the arguments are the fields of the Go
  structs sent (\<^verbatim>\<open>ClientRequest{Request{Hash, Round}, Id}\<close>, \<^verbatim>\<open>RequestArg{Id, Round}\<close>,
  \<^verbatim>\<open>UpBlock{HC1, HC2, DH1, DH2, BC, Round}\<close>, \<^verbatim>\<open>ClientMask{Mask, Id, Round}\<close>).
\<close>

datatype rpc =
    Server_RequestBlock (Hash: "bytes list") (Round: int) (Id: int)
  | Server_GetReqHashes (Id: int) (Round: int)
  | Server_UploadBlock (HC1: "bytes list") (HC2: "bytes list") (DH1: bytes) (DH2: bytes)
      (BC: bytes) (Round: int)
  | Server_GetUpHashes (Id: int) (Round: int)
  | Server_GetResponse (Mask: bytes) (Id: int) (Round: int)

datatype reply = RpcError | Ack | HashesReply "bytes list" | BytesReply bytes

type_synonym server = "rpc list \<Rightarrow> rpc \<Rightarrow> reply"

subsection \<open>The client\<close>

record ('pt, 'rnd) Client =
  id_c :: int
  servers :: "string list"
  myServer :: nat
  totalClients :: int
  files :: "(string \<times> (bytes \<Rightarrow> int option)) list"
  osFiles :: "string \<Rightarrow> bytes option"
  rand :: 'rnd
  pks :: "'pt list"
  reqRound :: int
  reqHashRound :: int
  upRound :: int
  downRound :: int
  ephKeys :: "'pt list"
  dhashes :: "bytes list"
  masks :: "bytes list"
  secrets :: "bytes list"
  wire :: "rpc list"

text \<open>
  \<open>files\<close> lists the entries of the Go map \<^verbatim>\<open>files\<close> (file name, its table from hash to
  offset) in the order the \<^verbatim>\<open>range\<close> loop of the run visits them; \<open>osFiles\<close> maps a
  file name to the content of the open file. \<open>dhashes\<close> is the content of the buffered
  channel, oldest first; its capacity is \<open>MaxRounds\<close>.
\<close>

definition Call ::
  "server \<Rightarrow> rpc \<Rightarrow> ('pt, 'rnd) Client \<Rightarrow> (reply, ('pt, 'rnd) Client) outcome" where
  \<comment> \<open>\<^verbatim>\<open>err := c.rpcServers[c.myServer].Call(...)\<close>, \<^verbatim>\<open>log.Fatal\<close> on an error\<close>
  "Call srv r c =
     (if myServer c < length (servers c)
      then (case srv (wire c) r of
              RpcError \<Rightarrow> Halt Fatal (c\<lparr>wire := wire c @ [r]\<rparr>)
            | rep \<Rightarrow> Done rep (c\<lparr>wire := wire c @ [r]\<rparr>))
      else Halt Panic c)"

subsection \<open>Request\<close>

definition reqs_of :: "int \<Rightarrow> int \<Rightarrow> bytes \<Rightarrow> bytes list" where
  \<comment> \<open>the loop \<^verbatim>\<open>for i := range reqs\<close> of RequestBlock, for \<open>0 \<le> M\<close>\<close>
  "reqs_of M slot hash =
     map (\<lambda>i. if int i = slot then hash else zeros (length hash)) [0..<nat M]"

definition RequestBlock ::
  "('pt, 'sc, 'rnd) lib \<Rightarrow> server \<Rightarrow> int \<Rightarrow> bytes \<Rightarrow> ('pt, 'rnd) Client
     \<Rightarrow> (unit, ('pt, 'rnd) Client) outcome" where
  "RequestBlock L srv slot hash c =
     (let round = reqRound c smod int (MaxRounds L) in
      if totalClients c < 0 then Halt Panic c
      else let reqs = reqs_of (totalClients c) slot hash in
        if length (dhashes c) < MaxRounds L
        then let c1 = c\<lparr>dhashes := dhashes c @ [hash]\<rparr> in
          (case Call srv (Server_RequestBlock reqs round (id_c c)) c1 of
             Halt h c2 \<Rightarrow> Halt h c2
           | Done rep c2 \<Rightarrow> Done () (c2\<lparr>reqRound := reqRound c2 + 1\<rparr>))
        else Halt Blocked c)"

subsection \<open>Upload\<close>

definition DownloadReqHash ::
  "server \<Rightarrow> ('pt, 'rnd) Client \<Rightarrow> (bytes list, ('pt, 'rnd) Client) outcome" where
  "DownloadReqHash srv c =
     (case Call srv (Server_GetReqHashes (id_c c) (reqHashRound c)) c of
        Halt h c1 \<Rightarrow> Halt h c1
      | Done rep c1 \<Rightarrow>
          (case rep of
             HashesReply hashes \<Rightarrow> Done hashes (c1\<lparr>reqHashRound := reqHashRound c1 + 1\<rparr>)
           | _ \<Rightarrow> Halt Fatal c1))"

fun scan_hashes :: "(bytes \<Rightarrow> int option) \<Rightarrow> bytes list \<Rightarrow> int \<Rightarrow> int" where
  \<comment> \<open>the inner loop \<^verbatim>\<open>for _, h := range hashes\<close> of Upload; the last argument is
     \<^verbatim>\<open>offset\<close>\<close>
  "scan_hashes fhashes [] offset = offset"
| "scan_hashes fhashes (h # hs) offset =
     scan_hashes fhashes hs (case fhashes h of Some o' \<Rightarrow> o' | None \<Rightarrow> offset)"

fun match_files ::
  "(string \<times> (bytes \<Rightarrow> int option)) list \<Rightarrow> bytes list \<Rightarrow> string \<times> int \<Rightarrow> string \<times> int" where
  \<comment> \<open>the outer loop \<^verbatim>\<open>for n, f := range c.files\<close> of Upload; the last argument is
     (\<^verbatim>\<open>name\<close>, \<^verbatim>\<open>offset\<close>)\<close>
  "match_files [] hashes (name, offset) = (name, offset)"
| "match_files ((n, fhashes) # fs) hashes (name, offset) =
     (let offset' = scan_hashes fhashes hashes offset
      in if offset' \<noteq> -1 then (n, offset') else match_files fs hashes (name, offset'))"

definition ReadAt :: "bytes option \<Rightarrow> nat \<Rightarrow> int \<Rightarrow> bytes option" where
  \<comment> \<open>\<^verbatim>\<open>f.ReadAt(buf, offset)\<close> with \<open>n = len(buf)\<close>: \<open>None\<close> is an error (no such open
     file, a negative offset, or fewer than \<open>n\<close> bytes left)\<close>
  "ReadAt f n off =
     (case f of
        None \<Rightarrow> None
      | Some content \<Rightarrow>
          if 0 \<le> off \<and> nat off + n \<le> length content
          then Some (take n (drop (nat off) content)) else None)"

definition Upload_body ::
  "('pt, 'sc, 'rnd) lib \<Rightarrow> ('pt, 'rnd) Client \<Rightarrow> bytes list \<Rightarrow> bytes option" where
  \<comment> \<open>the block \<^verbatim>\<open>match\<close> that Upload hands to UploadBlock for the requested hashes;
     \<open>None\<close> when reading the file fails\<close>
  "Upload_body L c hashes =
     (let (name, offset) = match_files (files c) hashes ([], -1)
      in if offset \<noteq> -1 then ReadAt (osFiles c name) (BlockSize L) offset
         else Some (zeros (BlockSize L)))"

fun onion ::
  "('pt, 'sc, 'rnd) lib \<Rightarrow> 'pt list \<Rightarrow> 'sc \<Rightarrow> nat list \<Rightarrow> bytes \<Rightarrow> halt + bytes" where
  \<comment> \<open>the loop \<^verbatim>\<open>for i := range c.servers\<close> of UploadBlock; the last argument is \<^verbatim>\<open>bs\<close>\<close>
  "onion L eph secret [] bs = Inr bs"
| "onion L eph secret (i # is) bs =
     (if i < length eph
      then onion L eph secret is (CounterAES L (MarshalPoint L (Mul L (eph ! i) secret)) bs)
      else Inl Panic)"

definition marshal_pairs ::
  "('pt, 'sc, 'rnd) lib \<Rightarrow> 'pt list \<Rightarrow> 'pt list \<Rightarrow> (bytes list \<times> bytes list) option" where
  \<comment> \<open>\<^verbatim>\<open>HC1\<close> and \<^verbatim>\<open>HC2\<close> of the UpBlock: made with the lengths of \<^verbatim>\<open>hc1s\<close> and
     \<^verbatim>\<open>hc2s\<close>, then filled by the loop \<^verbatim>\<open>for i := range hc1s\<close>; \<open>None\<close> is the index
     out of range when \<^verbatim>\<open>hc2s\<close> is the shorter\<close>
  "marshal_pairs L hc1s hc2s =
     (if length hc2s < length hc1s then None
      else Some (map (MarshalPoint L) hc1s,
                 map (MarshalPoint L) (take (length hc1s) hc2s)
                   @ replicate (length hc2s - length hc1s) []))"

definition UploadBlock ::
  "('pt, 'sc, 'rnd) lib \<Rightarrow> server \<Rightarrow> bytes \<times> int \<Rightarrow> ('pt, 'rnd) Client
     \<Rightarrow> (unit, ('pt, 'rnd) Client) outcome" where
  \<comment> \<open>the argument \<^verbatim>\<open>Block{Block, Round}\<close> is the pair (block, round)\<close>
  "UploadBlock L srv block c =
     (let hash = SuiteHash L (fst block);
          (hc1s, hc2s) = Encrypt L hash (pks c);
          gen = Base L;
          (secret, rand') = Pick L (rand c);
          c1 = c\<lparr>rand := rand'\<rparr>;
          public = Mul L gen secret
      in (case onion L (ephKeys c) secret [0..<length (servers c)] (fst block) of
            Inl p \<Rightarrow> Halt p c1
          | Inr bs \<Rightarrow>
              if pks c = [] then Halt Panic c1
              else (let (dh1, dh2) = EncryptPoint L public (pks c ! 0)
                in (case marshal_pairs L hc1s hc2s of
                      None \<Rightarrow> Halt Panic c1
                    | Some (hc1, hc2) \<Rightarrow>
                        (case Call srv (Server_UploadBlock hc1 hc2 (MarshalPoint L dh1)
                                          (MarshalPoint L dh2) bs (snd block)) c1 of
                           Halt h c2 \<Rightarrow> Halt h c2
                         | Done rep c2 \<Rightarrow> Done () c2)))))"

definition Upload ::
  "('pt, 'sc, 'rnd) lib \<Rightarrow> server \<Rightarrow> ('pt, 'rnd) Client \<Rightarrow> (unit, ('pt, 'rnd) Client) outcome" where
  "Upload L srv c =
     (case DownloadReqHash srv c of
        Halt h c1 \<Rightarrow> Halt h c1
      | Done hashes c1 \<Rightarrow>
          (case Upload_body L c1 hashes of
             None \<Rightarrow> Halt Fatal c1
           | Some match \<Rightarrow>
               (case UploadBlock L srv (match, upRound c1) c1 of
                  Halt h c2 \<Rightarrow> Halt h c2
                | Done u c2 \<Rightarrow> Done () (c2\<lparr>upRound := upRound c2 + 1\<rparr>))))"

subsection \<open>Download\<close>

fun advance_loop :: "('pt, 'sc, 'rnd) lib \<Rightarrow> nat list \<Rightarrow> bytes list \<Rightarrow> bytes list" where
  \<comment> \<open>\<^verbatim>\<open>for i := range cs { rand := Suite.Cipher(cs[i]); rand.Read(cs[i]) }\<close>, for
     \<^verbatim>\<open>c.secrets\<close> and for \<^verbatim>\<open>c.masks\<close>\<close>
  "advance_loop L [] cs = cs"
| "advance_loop L (i # is) cs =
     advance_loop L is (cs[i := Read L (cs ! i) (length (cs ! i))])"

definition advance :: "('pt, 'sc, 'rnd) lib \<Rightarrow> bytes list \<Rightarrow> bytes list" where
  "advance L cs = advance_loop L [0..<length cs] cs"

definition DownloadSlot ::
  "('pt, 'sc, 'rnd) lib \<Rightarrow> server \<Rightarrow> int \<Rightarrow> ('pt, 'rnd) Client
     \<Rightarrow> (bytes, ('pt, 'rnd) Client) outcome" where
  \<comment> \<open>\<open>mask0\<close>, \<open>mask1\<close>, \<open>mask2\<close>: the content of \<^verbatim>\<open>mask\<close> after \<^verbatim>\<open>Xors(c.masks)\<close> and
     after each of the two calls of \<^verbatim>\<open>Xor\<close>; \<open>response0\<close>: the reply as received\<close>
  "DownloadSlot L srv slot c =
     (case SetBit slot True (zeros (SecretSize L)) of
        Inl p \<Rightarrow> Halt p c
      | Inr finalMask \<Rightarrow>
     (case Xors (masks c) of
        Inl p \<Rightarrow> Halt p c
      | Inr mask0 \<Rightarrow>
     if \<not> myServer c < length (masks c) then Halt Panic c else
     (case Xor (masks c ! myServer c) mask0 of
        Inl p \<Rightarrow> Halt p c
      | Inr mask1 \<Rightarrow>
     (case Xor finalMask mask1 of
        Inl p \<Rightarrow> Halt p c
      | Inr mask2 \<Rightarrow>
     (case Xors (secrets c) of
        Inl p \<Rightarrow> Halt p c
      | Inr secretsXor \<Rightarrow>
     (case Call srv (Server_GetResponse mask2 (id_c c) (downRound c)) c of
        Halt h c1 \<Rightarrow> Halt h c1
      | Done rep c1 \<Rightarrow>
          (case rep of
             BytesReply response0 \<Rightarrow>
               (case Xor secretsXor response0 of
                  Inl p \<Rightarrow> Halt p c1
                | Inr response \<Rightarrow>
                    Done response
                      (c1\<lparr>secrets := advance L (secrets c1), masks := advance L (masks c1)\<rparr>))
           | _ \<Rightarrow> Halt Fatal c1)))))))"

fun found_loop :: "bytes \<Rightarrow> bytes \<Rightarrow> nat list \<Rightarrow> bool \<Rightarrow> halt + bool" where
  \<comment> \<open>\<^verbatim>\<open>for j := range hash { found = found && (hash[j] == hashes[i][j]) }\<close>: \<^verbatim>\<open>&&\<close> reads its
     right operand only when \<^verbatim>\<open>found\<close> holds\<close>
  "found_loop hash e [] found = Inr found"
| "found_loop hash e (j # js) found =
     (if found
      then (if j < length e then found_loop hash e js (hash ! j = e ! j) else Inl Panic)
      else found_loop hash e js False)"

fun locate :: "bytes \<Rightarrow> bytes list \<Rightarrow> nat \<Rightarrow> halt + nat option" where
  \<comment> \<open>the loop \<^verbatim>\<open>for i := range hashes\<close> of DownloadBlock, from index \<open>i\<close> on; \<open>Some i\<close>
     is the slot handed to DownloadSlot\<close>
  "locate hash [] i = Inr None"
| "locate hash (e # es) i =
     (case found_loop hash e [0..<length hash] True of
        Inl p \<Rightarrow> Inl p
      | Inr found \<Rightarrow> if found then Inr (Some i) else locate hash es (Suc i))"

definition DownloadBlock ::
  "('pt, 'sc, 'rnd) lib \<Rightarrow> server \<Rightarrow> bytes \<Rightarrow> ('pt, 'rnd) Client
     \<Rightarrow> (bytes, ('pt, 'rnd) Client) outcome" where
  "DownloadBlock L srv hash c =
     (case Call srv (Server_GetUpHashes (id_c c) (downRound c)) c of
        Halt h c1 \<Rightarrow> Halt h c1
      | Done rep c1 \<Rightarrow>
          (case rep of
             HashesReply hashes \<Rightarrow>
               (case locate hash hashes 0 of
                  Inl p \<Rightarrow> Halt p c1
                | Inr None \<Rightarrow> Done [] c1
                | Inr (Some i) \<Rightarrow> DownloadSlot L srv (int i) c1)
           | _ \<Rightarrow> Halt Fatal c1))"

definition Download ::
  "('pt, 'sc, 'rnd) lib \<Rightarrow> server \<Rightarrow> ('pt, 'rnd) Client \<Rightarrow> (bytes, ('pt, 'rnd) Client) outcome" where
  "Download L srv c =
     (case dhashes c of
        [] \<Rightarrow> Halt Blocked c
      | hash # rest \<Rightarrow>
          (case DownloadBlock L srv hash (c\<lparr>dhashes := rest\<rparr>) of
             Halt h c1 \<Rightarrow> Halt h c1
           | Done block c1 \<Rightarrow> Done block (c1\<lparr>downRound := downRound c1 + 1\<rparr>)))"

subsection \<open>Notions used to state the properties\<close>

definition sent :: "('pt, 'rnd) Client \<Rightarrow> ('pt, 'rnd) Client \<Rightarrow> rpc list" where
  \<comment> \<open>the calls placed between the state \<open>c\<close> and the later state \<open>c'\<close>\<close>
  "sent c c' = drop (length (wire c)) (wire c')"

definition xor_all :: "nat \<Rightarrow> bytes list \<Rightarrow> bytes" where
  \<comment> \<open>the XOR of buffers of length \<open>n\<close>; of no buffer, \<open>n\<close> zero bytes\<close>
  "xor_all n bss = foldr xor_bytes bss (zeros n)"

definition except :: "nat \<Rightarrow> 'a list \<Rightarrow> 'a list" where
  \<comment> \<open>the list without its entry \<open>h\<close>\<close>
  "except h xs = take h xs @ drop (Suc h) xs"

fun spec_onion ::
  "('pt, 'sc, 'rnd) lib \<Rightarrow> 'pt list \<Rightarrow> 'sc \<Rightarrow> nat \<Rightarrow> bytes \<Rightarrow> bytes" where
  \<comment> \<open>The onion of section 4.E in the spec's words, after \<open>n\<close> layers: starting with the
     plaintext, for \<open>i = 0..n-1\<close>, the key is the serialised \<open>eph_i \<cdot> r\<close> and the body
     becomes CounterAES of it under that key.\<close>
  "spec_onion L eph r 0 body = body"
| "spec_onion L eph r (Suc n) body =
     CounterAES L (MarshalPoint L (Mul L (eph ! n) r)) (spec_onion L eph r n body)"

datatype call = Request int bytes | Fetch

fun requested :: "call list \<Rightarrow> bytes list" where
  "requested [] = []"
| "requested (Request slot hash # cs) = hash # requested cs"
| "requested (Fetch # cs) = requested cs"

fun run ::
  "('pt, 'sc, 'rnd) lib \<Rightarrow> server \<Rightarrow> call list \<Rightarrow> ('pt, 'rnd) Client
     \<Rightarrow> (bytes list \<times> ('pt, 'rnd) Client) option" where
  \<comment> \<open>A caller placing the calls one after the other (\<open>Request slot hash\<close> is
     RequestBlock, \<open>Fetch\<close> is Download). The result is \<open>None\<close> when a call does not
     return; otherwise the final state and, for each Download in order, the hash it
     received from the channel (the argument it gives to DownloadBlock).\<close>
  "run L srv [] c = Some ([], c)"
| "run L srv (Request slot hash # cs) c =
     (case RequestBlock L srv slot hash c of
        Halt h c' \<Rightarrow> None
      | Done u c' \<Rightarrow> run L srv cs c')"
| "run L srv (Fetch # cs) c =
     (case Download L srv c of
        Halt h c' \<Rightarrow> None
      | Done block c' \<Rightarrow>
          (case run L srv cs c' of
             None \<Rightarrow> None
           | Some (log, c'') \<Rightarrow> Some (hd (dhashes c) # log, c'')))"

subsection \<open>A small instance, for evaluating the operations\<close>

definition demo_lib :: "(nat, nat, nat) lib" where
  "demo_lib =
     \<lparr>MaxRounds = 2, BlockSize = 1, SecretSize = 1,
      SuiteHash = (\<lambda>b. map (\<lambda>x. x + 1) b),
      Base = 3,
      Pick = (\<lambda>r. (r + 2, Suc r)),
      Mul = (\<lambda>p s. p * s),
      Cipher = (\<lambda>key k. of_nat (length key + k) + hd key + 1),
      Encrypt = (\<lambda>m ps. (map (\<lambda>p. p + length m) ps, map (\<lambda>p. p + 2 * length m) ps)),
      EncryptPoint = (\<lambda>p pk. (p + pk, p * pk)),
      MarshalPoint = (\<lambda>p. [of_nat p]),
      CounterAES = (\<lambda>key b. map (\<lambda>x. x + hd key) b)\<rparr>"

definition demo_client :: "(nat, nat) Client" where
  "demo_client =
     \<lparr>id_c = 0, servers = [''s0'', ''s1''], myServer = 0, totalClients = 2,
      files = [], osFiles = (\<lambda>n. None), rand = 0, pks = [5, 7],
      reqRound = 0, reqHashRound = 0, upRound = 0, downRound = 0,
      ephKeys = [2, 4], dhashes = [], masks = [[1], [2]], secrets = [[3], [4]],
      wire = []\<rparr>"

definition demo_server :: server where
  \<comment> \<open>a home server that answers every call; every round it reports the requested
     hashes \<open>[[7], [8]]\<close> and the uploaded hashes \<open>[[7], [8]]\<close>\<close>
  "demo_server hist r =
     (case r of
        Server_RequestBlock v rd i \<Rightarrow> Ack
      | Server_GetReqHashes i rd \<Rightarrow> HashesReply [[7], [8]]
      | Server_UploadBlock a b d e f rd \<Rightarrow> Ack
      | Server_GetUpHashes i rd \<Rightarrow> HashesReply [[7], [8]]
      | Server_GetResponse m i rd \<Rightarrow> BytesReply [9])"

definition down_server :: server where
  \<comment> \<open>a home server whose connection fails\<close>
  "down_server hist r = RpcError"

section \<open>Properties\<close>

subsection \<open>The comparison loop of DownloadBlock\<close>

lemma found_loop_False: "found_loop hash e js False = Inr False"
  by (induction js) auto

lemma found_loop_drop:
  "k \<le> length hash \<Longrightarrow>
   found_loop hash e [k..<length hash] True =
     (if prefix (drop k hash) (drop k e) then Inr True
      else if strict_prefix (drop k e) (drop k hash) then Inl Panic else Inr False)"
proof (induction "length hash - k" arbitrary: k)
  case 0
  then show ?case by simp
next
  case (Suc d)
  then have k: "k < length hash" by simp
  have IH: "found_loop hash e [Suc k..<length hash] True =
     (if prefix (drop (Suc k) hash) (drop (Suc k) e) then Inr True
      else if strict_prefix (drop (Suc k) e) (drop (Suc k) hash) then Inl Panic else Inr False)"
    using Suc k by simp
  show ?case
  proof (cases "k < length e")
    case True
    then show ?thesis using k IH
      by (cases "hash ! k = e ! k")
        (simp_all add: upt_conv_Cons found_loop_False Cons_nth_drop_Suc [symmetric])
  next
    case False
    then show ?thesis using k
      by (simp add: upt_conv_Cons Cons_nth_drop_Suc [symmetric])
  qed
qed

lemma found_loop_char:
  "found_loop hash e [0..<length hash] True =
     (if prefix hash e then Inr True
      else if strict_prefix e hash then Inl Panic else Inr False)"
  using found_loop_drop [of 0 hash e] by simp

lemma locate_Some:
  "locate hash hashes i = Inr (Some r) \<longleftrightarrow>
     (\<exists>j<length hashes. r = i + j \<and> prefix hash (hashes ! j) \<and>
        (\<forall>l<j. \<not> prefix hash (hashes ! l) \<and> \<not> strict_prefix (hashes ! l) hash))"
proof (induction hashes arbitrary: i)
  case Nil
  then show ?case by simp
next
  case (Cons e es)
  show ?case
    using Cons [of "Suc i"]
    by (simp add: found_loop_char Ex_less_Suc2 All_less_Suc2) auto
qed

lemma locate_None:
  "locate hash hashes i = Inr None \<longleftrightarrow>
     (\<forall>e\<in>set hashes. \<not> prefix hash e \<and> \<not> strict_prefix e hash)"
  by (induction hashes arbitrary: i) (auto simp: found_loop_char)

lemma locate_Panic:
  "locate hash hashes i = Inl p \<longleftrightarrow>
     p = Panic \<and> (\<exists>j<length hashes. strict_prefix (hashes ! j) hash \<and>
        (\<forall>l<j. \<not> prefix hash (hashes ! l) \<and> \<not> strict_prefix (hashes ! l) hash))"
proof (induction hashes arbitrary: i)
  case Nil
  then show ?case by simp
next
  case (Cons e es)
  show ?case
    using Cons [of "Suc i"]
    by (simp add: found_loop_char Ex_less_Suc2 All_less_Suc2) auto
qed

text \<open>
  Claim C9, as amended. \<open>locate hash hashes 0\<close> is the loop of DownloadBlock over the list
  GetUpHashes returned. An entry matches when the requested hash is a prefix of it (only
  the positions \<open>0..|hash|-1\<close> of the entry are compared). The loop hands to DownloadSlot
  the smallest index of a matching entry, provided no earlier entry is a proper prefix of
  the hash; a zero-length hash matches slot 0 of every non-empty list. The comparison
  reads an entry out of range exactly when that entry is a proper prefix of the hash and
  no earlier entry matched; so it stays in range whenever every returned entry has at
  least \<open>|hash|\<close> bytes, which is sufficient and not necessary.
\<close>

theorem DownloadBlock_locate:
  "(locate hash hashes 0 = Inr (Some i) \<longleftrightarrow>
      i < length hashes \<and> prefix hash (hashes ! i) \<and>
      (\<forall>l<i. \<not> prefix hash (hashes ! l) \<and> \<not> strict_prefix (hashes ! l) hash))
   \<and> (locate hash hashes 0 = Inr None \<longleftrightarrow>
      (\<forall>e\<in>set hashes. \<not> prefix hash e \<and> \<not> strict_prefix e hash))
   \<and> (locate hash hashes 0 = Inl p \<longleftrightarrow>
      p = Panic \<and> (\<exists>j<length hashes. strict_prefix (hashes ! j) hash \<and>
        (\<forall>l<j. \<not> prefix hash (hashes ! l) \<and> \<not> strict_prefix (hashes ! l) hash)))
   \<and> (hashes \<noteq> [] \<longrightarrow> locate [] hashes 0 = Inr (Some 0))
   \<and> ((\<forall>e\<in>set hashes. length hash \<le> length e) \<longrightarrow> locate hash hashes 0 \<noteq> Inl p)"
proof -
  have a: "locate hash hashes 0 = Inr (Some i) \<longleftrightarrow>
      i < length hashes \<and> prefix hash (hashes ! i) \<and>
      (\<forall>l<i. \<not> prefix hash (hashes ! l) \<and> \<not> strict_prefix (hashes ! l) hash)"
    by (auto simp: locate_Some)
  have d: "hashes \<noteq> [] \<longrightarrow> locate [] hashes 0 = Inr (Some 0)"
    by (cases hashes) simp_all
  have e: "(\<forall>e\<in>set hashes. length hash \<le> length e) \<longrightarrow> locate hash hashes 0 \<noteq> Inl p"
  proof
    assume len: "\<forall>e\<in>set hashes. length hash \<le> length e"
    have "\<not> strict_prefix (hashes ! j) hash" if "j < length hashes" for j
      using len that prefix_length_less [of "hashes ! j" hash] by (metis nth_mem not_less)
    then show "locate hash hashes 0 \<noteq> Inl p"
      by (auto simp: locate_Panic)
  qed
  show ?thesis
    using a d e locate_None [of hash hashes 0] locate_Panic [of hash hashes 0 p] by blast
qed

theorem DownloadBlock_locate_witness:
  "locate [1, 2] [[3, 4], [1, 2, 5], [1]] 0 = Inr (Some 1)
   \<and> prefix [1, 2 :: byte] ([[3, 4], [1, 2, 5], [1]] ! 1)
   \<and> locate [] [[3, 4], [1, 2, 5], [1 :: byte]] 0 = Inr (Some 0)
   \<and> locate [1, 2] [[3, 4], [1, 2, 5]] 0 \<noteq> Inl Panic
   \<and> length [1, 2 :: byte] \<le> length [3, 4 :: byte]
   \<and> length [1, 2 :: byte] \<le> length [1, 2, 5 :: byte]"
  using DownloadBlock_locate [of "[1, 2]" "[[3, 4], [1, 2, 5], [1]]" 1 Panic]
    DownloadBlock_locate [of "[1, 2]" "[[3, 4], [1, 2, 5]]" 1 Panic]
  by (simp add: All_less_Suc2)

text \<open>
  The claim as stated has the comparison in range only if every returned entry has at
  least \<open>|hash|\<close> bytes. The entry \<open>[9]\<close> is shorter than the hash \<open>[1, 2]\<close> and differs
  from it at position 0: \<^verbatim>\<open>found\<close> is false from then on, \<^verbatim>\<open>&&\<close> does not read
  \<^verbatim>\<open>hashes[i][1]\<close>, and the loop ends in range with no match.
\<close>

theorem DownloadBlock_locate_short_entry_in_range:
  "\<not> ((\<forall>p. locate [1, 2] [[9]] 0 \<noteq> Inl p) \<longrightarrow>
        (\<forall>e\<in>set [[9 :: byte]]. length [1, 2 :: byte] \<le> length e))"
  by (simp add: upt_rec)

end
